theory Spec2Isabelle
  imports Complex_Main "HOL-Library.Multiset"
begin

section \<open>The relational store\<close>

text \<open>
  The four tables of \<^verbatim>\<open>prisma/schema.prisma\<close>. Every \<^verbatim>\<open>Int\<close> column is an
  \<open>int\<close>; the value of a \<^verbatim>\<open>Decimal(10, 2)\<close> column is a rational.
  \<^verbatim>\<open>DateTime\<close> is a count of milliseconds. A table is the list of
  its rows, in the order in which the store returns them, and each autoincrement key
  has its sequence in the state.
\<close>

record Restaurant =
  r_id :: int
  r_cashBalance :: rat
  r_openingHours :: string
  r_restaurantName :: string
  r_ownerId :: "int option"

record User =
  u_id :: int
  u_cashBalance :: rat
  u_name :: string
  u_password :: string
  u_email :: "string option"

record Menu =
  m_id :: int
  m_dishName :: string
  m_price :: rat
  m_restaurantId :: int

record PurchaseHistory =
  p_id :: int
  p_transactionDate :: int
  p_menuId :: int
  p_userId :: int

record db =
  restaurants :: "Restaurant list"
  users :: "User list"
  menus :: "Menu list"
  purchaseHistory :: "PurchaseHistory list"
  restaurant_seq :: int
  menu_seq :: int
  purchaseHistory_seq :: int

text \<open>
  What a service method can throw: the HTTP exceptions of the framework, the
  \<^verbatim>\<open>TypeError\<close> of reading a property of \<^verbatim>\<open>null\<close>, and an error of the
  store's client that no handler catches (\<^verbatim>\<open>P2002\<close>: unique constraint,
  \<^verbatim>\<open>P2020\<close>: a value out of the range of its column, \<^verbatim>\<open>P2025\<close>: a
  record the operation needs does not exist).
\<close>

datatype prisma_code = P2002 | P2020 | P2025

datatype error =
    NotFoundException
  | BadRequestException
  | ConflictException
  | ForbiddenException
  | PaymentRequired
  | TypeError
  | PrismaError prisma_code

subsection \<open>Reads\<close>

definition menu_findFirst_id :: "db \<Rightarrow> int \<Rightarrow> Menu option" where
  "menu_findFirst_id d i = find (\<lambda>m. m_id m = i) (menus d)"

definition menu_findFirst_dish :: "db \<Rightarrow> string \<Rightarrow> int \<Rightarrow> Menu option" where
  "menu_findFirst_dish d n rid =
     find (\<lambda>m. m_dishName m = n \<and> m_restaurantId m = rid) (menus d)"

definition restaurant_findFirst :: "db \<Rightarrow> int \<Rightarrow> Restaurant option" where
  "restaurant_findFirst d i = find (\<lambda>r. r_id r = i) (restaurants d)"

definition user_findUnique :: "db \<Rightarrow> string \<Rightarrow> User option" where
  "user_findUnique d n = find (\<lambda>u. u_name u = n) (users d)"

definition user_findFirst_id :: "db \<Rightarrow> int \<Rightarrow> User option" where
  "user_findFirst_id d i = find (\<lambda>u. u_id u = i) (users d)"

text \<open>\<^verbatim>\<open>restaurant.findMany({ include: { menus: true } })\<close>\<close>

definition restaurant_findMany_menus :: "db \<Rightarrow> (Restaurant \<times> Menu list) list" where
  "restaurant_findMany_menus d =
     map (\<lambda>r. (r, filter (\<lambda>m. m_restaurantId m = r_id r) (menus d))) (restaurants d)"

subsection \<open>Writes\<close>

text \<open>
  \<^verbatim>\<open>purchaseHistory.create\<close> connects a menu and a user by id, and the client
  raises when either is missing.
\<close>

definition purchaseHistory_create ::
  "db \<Rightarrow> int \<Rightarrow> int \<Rightarrow> int \<Rightarrow> prisma_code + (PurchaseHistory \<times> db)" where
  "purchaseHistory_create d menuId userId date =
     (if menu_findFirst_id d menuId \<noteq> None \<and> user_findFirst_id d userId \<noteq> None
      then
        let row = \<lparr>p_id = purchaseHistory_seq d, p_transactionDate = date,
                   p_menuId = menuId, p_userId = userId\<rparr>
        in Inr (row, d\<lparr>purchaseHistory := purchaseHistory d @ [row],
                        purchaseHistory_seq := purchaseHistory_seq d + 1\<rparr>)
      else Inl P2025)"

text \<open>
  A \<^verbatim>\<open>Decimal(10, 2)\<close> column holds ten digits, two of them after the point: an
  amount of 100000000 or more, in absolute value, is out of its range, and the write
  that carries it fails. (An amount that is a whole number of cents is stored as it is;
  sums and integer multiples of such amounts are such amounts.)
\<close>

definition fits_decimal_10_2 :: "rat \<Rightarrow> bool" where
  "fits_decimal_10_2 c \<longleftrightarrow> \<bar>c\<bar> < 100000000"

text \<open>\<^verbatim>\<open>restaurant.update({ where: { id }, data: { cashBalance } })\<close>\<close>

definition restaurant_update_cashBalance :: "db \<Rightarrow> int \<Rightarrow> rat \<Rightarrow> prisma_code + db" where
  "restaurant_update_cashBalance d i c =
     (if restaurant_findFirst d i = None then Inl P2025
      else if \<not> fits_decimal_10_2 c then Inl P2020
      else Inr (d\<lparr>restaurants :=
                    map (\<lambda>r. if r_id r = i then r\<lparr>r_cashBalance := c\<rparr> else r) (restaurants d)\<rparr>))"

text \<open>\<^verbatim>\<open>user.update({ where: { name }, data: { cashBalance } })\<close>\<close>

definition user_update_cashBalance :: "db \<Rightarrow> string \<Rightarrow> rat \<Rightarrow> prisma_code + db" where
  "user_update_cashBalance d n c =
     (if user_findUnique d n = None then Inl P2025
      else if \<not> fits_decimal_10_2 c then Inl P2020
      else Inr (d\<lparr>users :=
                    map (\<lambda>u. if u_name u = n then u\<lparr>u_cashBalance := c\<rparr> else u) (users d)\<rparr>))"

section \<open>PurchaseService.purchaseDish\<close>

text \<open>
  \<^verbatim>\<open>purchaseDish\<close> on exact amounts: a number is the rational it stands for,
  and sums, differences and products are exact. The section after this one has the
  function over the numbers of the code. A line item here has integers in both fields,
  of either sign (the service checks neither).
\<close>

record PurchaseItem =
  menuId :: int
  quantity :: int

record PurchaseDto =
  items :: "PurchaseItem list"

text \<open>
  The first loop: resolve every menu id and add up the total.
\<close>

fun totalPrice_loop :: "db \<Rightarrow> PurchaseItem list \<Rightarrow> rat \<Rightarrow> error + rat" where
  "totalPrice_loop d [] totalPrice = Inr totalPrice"
| "totalPrice_loop d (it # its) totalPrice =
     (case menu_findFirst_id d (menuId it) of
        None \<Rightarrow> Inl BadRequestException
      | Some menu \<Rightarrow> totalPrice_loop d its (totalPrice + m_price menu * of_int (quantity it)))"

text \<open>
  The inner loop \<^verbatim>\<open>for (let j = 0; j < quantity; j++)\<close>, with the number of
  iterations left as its argument. Each iteration creates one purchase row, reads the
  restaurant of the menu and writes back its balance plus the price. An exception
  leaves the store as the iterations before it made it.
\<close>

fun unit_loop ::
  "int \<Rightarrow> User \<Rightarrow> Menu option \<Rightarrow> nat \<Rightarrow> PurchaseHistory list \<Rightarrow> db
     \<Rightarrow> (error + PurchaseHistory list) \<times> db" where
  "unit_loop now user menu 0 purchases d = (Inr purchases, d)"
| "unit_loop now user menu (Suc n) purchases d =
     (case menu of
        None \<Rightarrow> (Inl TypeError, d)
      | Some m \<Rightarrow>
          (case purchaseHistory_create d (m_id m) (u_id user) now of
             Inl c \<Rightarrow> (Inl (PrismaError c), d)
           | Inr (purchase, d1) \<Rightarrow>
               (case restaurant_findFirst d1 (m_restaurantId m) of
                  None \<Rightarrow> (Inl TypeError, d1)
                | Some restaurant \<Rightarrow>
                    (case restaurant_update_cashBalance d1 (m_restaurantId m)
                            (r_cashBalance restaurant + m_price m) of
                       Inl c \<Rightarrow> (Inl (PrismaError c), d1)
                     | Inr d2 \<Rightarrow> unit_loop now user menu n (purchases @ [purchase]) d2))))"

text \<open>The outer loop over the line items; the menu is looked up again.\<close>

fun item_loop ::
  "int \<Rightarrow> User \<Rightarrow> PurchaseItem list \<Rightarrow> PurchaseHistory list \<Rightarrow> db
     \<Rightarrow> (error + PurchaseHistory list) \<times> db" where
  "item_loop now user [] purchases d = (Inr purchases, d)"
| "item_loop now user (it # its) purchases d =
     (case unit_loop now user (menu_findFirst_id d (menuId it)) (nat (quantity it)) purchases d of
        (Inl e, d1) \<Rightarrow> (Inl e, d1)
      | (Inr purchases1, d1) \<Rightarrow> item_loop now user its purchases1 d1)"

text \<open>
  \<open>now\<close> is the \<^verbatim>\<open>new Date()\<close> of the call, \<open>user\<close> the object the
  authentication layer hands in. The result pairs what the promise settles to with the
  store the call leaves behind.
\<close>

definition purchaseDish ::
  "int \<Rightarrow> db \<Rightarrow> PurchaseDto \<Rightarrow> User \<Rightarrow> (error + PurchaseHistory list) \<times> db" where
  "purchaseDish now d dto user =
     (case totalPrice_loop d (items dto) 0 of
        Inl e \<Rightarrow> (Inl e, d)
      | Inr totalPrice \<Rightarrow>
          if u_cashBalance user < totalPrice then (Inl PaymentRequired, d)
          else
            (case item_loop now user (items dto) [] d of
               (Inl e, d1) \<Rightarrow> (Inl e, d1)
             | (Inr purchases, d1) \<Rightarrow>
                 (case user_update_cashBalance d1 (u_name user)
                         (u_cashBalance user - totalPrice) of
                    Inl c \<Rightarrow> (Inl (PrismaError c), d1)
                  | Inr d2 \<Rightarrow> (Inr purchases, d2))))"

text \<open>The price of a line item and the total of a request, as sums.\<close>

definition line_price :: "db \<Rightarrow> PurchaseItem \<Rightarrow> rat" where
  "line_price d it =
     (case menu_findFirst_id d (menuId it) of
        None \<Rightarrow> 0
      | Some menu \<Rightarrow> m_price menu * of_int (quantity it))"

definition request_total :: "db \<Rightarrow> PurchaseItem list \<Rightarrow> rat" where
  "request_total d its = sum_list (map (line_price d) its)"

definition all_resolve :: "db \<Rightarrow> PurchaseItem list \<Rightarrow> bool" where
  "all_resolve d its = list_all (\<lambda>it. menu_findFirst_id d (menuId it) \<noteq> None) its"

text \<open>Adding an amount to the balance of the restaurant with a given key.\<close>

definition credit :: "int \<Rightarrow> rat \<Rightarrow> Restaurant list \<Rightarrow> Restaurant list" where
  "credit rid amount rs =
     map (\<lambda>r. if r_id r = rid then r\<lparr>r_cashBalance := r_cashBalance r + amount\<rparr> else r) rs"

text \<open>
  What a request owes to the restaurant with key \<open>rid\<close>: the prices of the line
  items whose menu belongs to it.
\<close>

definition owed :: "db \<Rightarrow> PurchaseItem list \<Rightarrow> int \<Rightarrow> rat" where
  "owed d its rid =
     sum_list (map (\<lambda>it. case menu_findFirst_id d (menuId it) of
                            None \<Rightarrow> 0
                          | Some menu \<Rightarrow>
                              if m_restaurantId menu = rid
                              then m_price menu * of_int (quantity it) else 0) its)"

text \<open>The menu, the buyer and the date of the rows a request should create, in order.\<close>

definition units_of :: "int \<Rightarrow> User \<Rightarrow> PurchaseItem list \<Rightarrow> (int \<times> int \<times> int) list" where
  "units_of now user its =
     concat (map (\<lambda>it. replicate (nat (quantity it)) (menuId it, u_id user, now)) its)"

definition purchase_ref :: "PurchaseHistory \<Rightarrow> int \<times> int \<times> int" where
  "purchase_ref p = (p_menuId p, p_userId p, p_transactionDate p)"

section \<open>purchaseDish over the numbers of the code\<close>

text \<open>
  The amounts that \<^verbatim>\<open>purchaseDish\<close> computes with are JavaScript numbers, and so
  is the quantity of a line item as the request carries it. The functions of this
  section are the ones of the last, line by line, over numbers of any type \<open>'n\<close>
  with their operations in a record: \<open>toNumber\<close> reads a column, \<open>toDecimal\<close> is
  what a \<^verbatim>\<open>Decimal(10, 2)\<close> column is asked to store for a number,
  \<open>iterations q\<close> is how often the body of \<^verbatim>\<open>for (let j = 0; j < q; j++)\<close>
  is entered when nothing in it throws. With the rationals and their exact operations
  they are the functions of the last section; with the doubles they are the code.
\<close>

record 'n Number =
  toNumber :: "rat \<Rightarrow> 'n"
  toDecimal :: "'n \<Rightarrow> rat"
  n_zero :: 'n
  n_add :: "'n \<Rightarrow> 'n \<Rightarrow> 'n"
  n_sub :: "'n \<Rightarrow> 'n \<Rightarrow> 'n"
  n_mul :: "'n \<Rightarrow> 'n \<Rightarrow> 'n"
  n_less :: "'n \<Rightarrow> 'n \<Rightarrow> bool"
  iterations :: "'n \<Rightarrow> nat"

record 'n Line =
  line_menuId :: int
  line_quantity :: 'n

fun totalPrice_loop_n :: "'n Number \<Rightarrow> db \<Rightarrow> 'n Line list \<Rightarrow> 'n \<Rightarrow> error + 'n" where
  "totalPrice_loop_n A d [] totalPrice = Inr totalPrice"
| "totalPrice_loop_n A d (it # its) totalPrice =
     (case menu_findFirst_id d (line_menuId it) of
        None \<Rightarrow> Inl BadRequestException
      | Some menu \<Rightarrow>
          totalPrice_loop_n A d its
            (n_add A totalPrice (n_mul A (toNumber A (m_price menu)) (line_quantity it))))"

fun unit_loop_n ::
  "'n Number \<Rightarrow> int \<Rightarrow> User \<Rightarrow> Menu option \<Rightarrow> nat \<Rightarrow> PurchaseHistory list \<Rightarrow> db
     \<Rightarrow> (error + PurchaseHistory list) \<times> db" where
  "unit_loop_n A now user menu 0 purchases d = (Inr purchases, d)"
| "unit_loop_n A now user menu (Suc n) purchases d =
     (case menu of
        None \<Rightarrow> (Inl TypeError, d)
      | Some m \<Rightarrow>
          (case purchaseHistory_create d (m_id m) (u_id user) now of
             Inl c \<Rightarrow> (Inl (PrismaError c), d)
           | Inr (purchase, d1) \<Rightarrow>
               (case restaurant_findFirst d1 (m_restaurantId m) of
                  None \<Rightarrow> (Inl TypeError, d1)
                | Some restaurant \<Rightarrow>
                    (case restaurant_update_cashBalance d1 (m_restaurantId m)
                            (toDecimal A (n_add A (toNumber A (r_cashBalance restaurant))
                                                  (toNumber A (m_price m)))) of
                       Inl c \<Rightarrow> (Inl (PrismaError c), d1)
                     | Inr d2 \<Rightarrow> unit_loop_n A now user menu n (purchases @ [purchase]) d2))))"

fun item_loop_n ::
  "'n Number \<Rightarrow> int \<Rightarrow> User \<Rightarrow> 'n Line list \<Rightarrow> PurchaseHistory list \<Rightarrow> db
     \<Rightarrow> (error + PurchaseHistory list) \<times> db" where
  "item_loop_n A now user [] purchases d = (Inr purchases, d)"
| "item_loop_n A now user (it # its) purchases d =
     (case unit_loop_n A now user (menu_findFirst_id d (line_menuId it))
             (iterations A (line_quantity it)) purchases d of
        (Inl e, d1) \<Rightarrow> (Inl e, d1)
      | (Inr purchases1, d1) \<Rightarrow> item_loop_n A now user its purchases1 d1)"

text \<open>The function from the balance check on, for the total that the first loop found.\<close>

definition settle_n ::
  "'n Number \<Rightarrow> int \<Rightarrow> db \<Rightarrow> 'n Line list \<Rightarrow> User \<Rightarrow> 'n
     \<Rightarrow> (error + PurchaseHistory list) \<times> db" where
  "settle_n A now d its user totalPrice =
     (if n_less A (toNumber A (u_cashBalance user)) totalPrice then (Inl PaymentRequired, d)
      else
        (case item_loop_n A now user its [] d of
           (Inl e, d1) \<Rightarrow> (Inl e, d1)
         | (Inr purchases, d1) \<Rightarrow>
             (case user_update_cashBalance d1 (u_name user)
                     (toDecimal A (n_sub A (toNumber A (u_cashBalance user)) totalPrice)) of
                Inl c \<Rightarrow> (Inl (PrismaError c), d1)
              | Inr d2 \<Rightarrow> (Inr purchases, d2))))"

definition purchaseDish_n ::
  "'n Number \<Rightarrow> int \<Rightarrow> db \<Rightarrow> 'n Line list \<Rightarrow> User \<Rightarrow> (error + PurchaseHistory list) \<times> db" where
  "purchaseDish_n A now d its user =
     (case totalPrice_loop_n A d its (n_zero A) of
        Inl e \<Rightarrow> (Inl e, d)
      | Inr totalPrice \<Rightarrow> settle_n A now d its user totalPrice)"

definition lines_resolve :: "db \<Rightarrow> 'n Line list \<Rightarrow> bool" where
  "lines_resolve d its = list_all (\<lambda>it. menu_findFirst_id d (line_menuId it) \<noteq> None) its"

text \<open>
  The sum of unit price times quantity over the line items, taken with the operations
  of the numbers, from zero and in the order of the items.
\<close>

definition total_n :: "'n Number \<Rightarrow> db \<Rightarrow> 'n Line list \<Rightarrow> 'n" where
  "total_n A d its =
     foldl (\<lambda>acc it. n_add A acc
              (n_mul A (toNumber A (m_price (the (menu_findFirst_id d (line_menuId it)))))
                 (line_quantity it)))
       (n_zero A) its"

subsection \<open>The rationals\<close>

definition exact :: "rat Number" where
  "exact = \<lparr>toNumber = (\<lambda>c. c), toDecimal = (\<lambda>x. x), n_zero = 0, n_add = (+), n_sub = (-),
             n_mul = (*), n_less = (<), iterations = (\<lambda>q. nat \<lceil>q\<rceil>)\<rparr>"

definition line_of :: "PurchaseItem \<Rightarrow> rat Line" where
  "line_of it = \<lparr>line_menuId = menuId it, line_quantity = of_int (quantity it)\<rparr>"

subsection \<open>The doubles\<close>

text \<open>
  A finite double is the rational it denotes. The nearest double to a rational, ties
  to the even significand: the rational is scaled by powers of two into the range of
  53-bit significands, rounded to an integer there, and scaled back. (The exponent is
  not bounded, so this is the rounding of doubles in their normal range.)
\<close>

definition round_half_even :: "rat \<Rightarrow> int" where
  "round_half_even x =
     (let n = \<lfloor>x\<rfloor>; r = x - of_int n
      in if r < 1 / 2 then n else if 1 / 2 < r then n + 1 else if even n then n else n + 1)"

function scale_down :: "rat \<Rightarrow> int \<Rightarrow> rat \<times> int" where
  "scale_down x e = (if 2 ^ 53 \<le> x then scale_down (x / 2) (e + 1) else (x, e))"
  by pat_completeness auto
termination
proof (relation "measure (\<lambda>(x, e). nat \<lfloor>x\<rfloor>)")
  show "wf (measure (\<lambda>(x, e). nat \<lfloor>x\<rfloor>))" by simp
next
  fix x :: rat and e :: int
  assume "2 ^ 53 \<le> x"
  then have two: "2 \<le> x" by simp
  then have "x / 2 \<le> x - 1" by simp
  moreover have "x - 1 < of_int \<lfloor>x\<rfloor>" using floor_correct [of x] by linarith
  ultimately have "x / 2 < of_int \<lfloor>x\<rfloor>" by simp
  then have "\<lfloor>x / 2\<rfloor> < \<lfloor>x\<rfloor>"
    by (simp add: floor_less_iff)
  moreover have "0 < \<lfloor>x\<rfloor>" using two by simp
  ultimately show "((x / 2, e + 1), (x, e)) \<in> measure (\<lambda>(x, e). nat \<lfloor>x\<rfloor>)"
    by simp
qed

function scale_up :: "rat \<Rightarrow> int \<Rightarrow> rat \<times> int" where
  "scale_up x e = (if 0 < x \<and> x < 2 ^ 52 then scale_up (x * 2) (e - 1) else (x, e))"
  by pat_completeness auto
termination
proof (relation "measure (\<lambda>(x, e). nat \<lceil>2 ^ 52 / x\<rceil>)")
  show "wf (measure (\<lambda>(x, e). nat \<lceil>2 ^ 52 / x\<rceil>))" by simp
next
  fix x :: rat and e :: int
  assume a: "0 < x \<and> x < 2 ^ 52"
  define t where "t = 2 ^ 52 / x"
  have t: "1 < t" using a by (simp add: t_def)
  have half: "2 ^ 52 / (x * 2) = t / 2" by (simp add: t_def)
  have "2 \<le> \<lceil>t\<rceil>" using t by (simp add: le_ceiling_iff)
  have "t / 2 \<le> of_int \<lceil>t\<rceil> / 2" by (simp add: divide_right_mono)
  also have "\<dots> \<le> of_int (\<lceil>t\<rceil> - 1)" using \<open>2 \<le> \<lceil>t\<rceil>\<close> by simp
  finally have "\<lceil>t / 2\<rceil> \<le> \<lceil>t\<rceil> - 1" by (rule ceiling_le)
  moreover have "0 < \<lceil>t\<rceil>" using t by (simp add: less_ceiling_iff)
  ultimately show "((x * 2, e - 1), (x, e)) \<in> measure (\<lambda>(x, e). nat \<lceil>2 ^ 52 / x\<rceil>)"
    unfolding half [symmetric] t_def by simp
qed

declare scale_down.simps [simp del] scale_up.simps [simp del]

definition binary64 :: "rat \<Rightarrow> rat" where
  "binary64 x =
     (if x = 0 then 0
      else
        (case scale_up \<bar>x\<bar> 0 of
           (y, e1) \<Rightarrow>
             (case scale_down y e1 of
                (m, e) \<Rightarrow>
                  sgn x * of_int (round_half_even m) *
                    (if 0 \<le> e then 2 ^ nat e else 1 / 2 ^ nat (- e)))))"

text \<open>
  A number on its way into a column of two places: rounded there, half away from zero.
  (The client sends the shortest decimal that reads back as the double, which rounds
  to the same cent unless it is itself a half cent; a double next to a sum of two
  column values is never near one.)
\<close>

definition round_cents :: "rat \<Rightarrow> rat" where
  "round_cents x = sgn x * of_int \<lfloor>\<bar>x\<bar> * 100 + 1 / 2\<rfloor> / 100"

text \<open>
  The operations of the code: a column is read as the nearest double, and the sum, the
  difference and the product of two doubles are the exact ones rounded to a double.
\<close>

definition double :: "rat Number" where
  "double = \<lparr>toNumber = binary64, toDecimal = round_cents, n_zero = 0,
              n_add = (\<lambda>a b. binary64 (a + b)), n_sub = (\<lambda>a b. binary64 (a - b)),
              n_mul = (\<lambda>a b. binary64 (a * b)), n_less = (<),
              iterations = (\<lambda>q. nat \<lceil>q\<rceil>)\<rparr>"



section \<open>RestaurantService and MenuService: writes\<close>

record RestaurantDto =
  restaurantName :: string
  openingHours :: string

record MenuDto =
  dishName :: string
  price :: rat

text \<open>
  \<^verbatim>\<open>restaurant.create\<close>. The model \<^verbatim>\<open>Restaurant\<close> of the schema declares no
  unique column but its key, which the sequence fills; what the client can refuse is
  the connection to an owner that does not exist.
\<close>

definition restaurant_create ::
  "db \<Rightarrow> rat \<Rightarrow> int \<Rightarrow> RestaurantDto \<Rightarrow> prisma_code + (Restaurant \<times> db)" where
  "restaurant_create d balance ownerId dto =
     (if user_findFirst_id d ownerId \<noteq> None
      then
        let row = \<lparr>r_id = restaurant_seq d, r_cashBalance = balance,
                   r_openingHours = openingHours dto,
                   r_restaurantName = restaurantName dto, r_ownerId = Some ownerId\<rparr>
        in Inr (row, d\<lparr>restaurants := restaurants d @ [row],
                        restaurant_seq := restaurant_seq d + 1\<rparr>)
      else Inl P2025)"

definition createRestaurant :: "db \<Rightarrow> RestaurantDto \<Rightarrow> User \<Rightarrow> (error + Restaurant) \<times> db" where
  "createRestaurant d dto user =
     (case restaurant_create d 0 (u_id user) dto of
        Inr (inst, d1) \<Rightarrow> (Inr inst, d1)
      | Inl code \<Rightarrow>
          if code = P2002 then (Inl ConflictException, d)
          else (Inl BadRequestException, d))"

definition menu_create :: "db \<Rightarrow> int \<Rightarrow> MenuDto \<Rightarrow> prisma_code + (Menu \<times> db)" where
  "menu_create d restaurantId dto =
     (if restaurant_findFirst d restaurantId \<noteq> None
      then
        let row = \<lparr>m_id = menu_seq d, m_dishName = dishName dto, m_price = price dto,
                   m_restaurantId = restaurantId\<rparr>
        in Inr (row, d\<lparr>menus := menus d @ [row], menu_seq := menu_seq d + 1\<rparr>)
      else Inl P2025)"

definition createMenuInRestaurant ::
  "db \<Rightarrow> int \<Rightarrow> MenuDto \<Rightarrow> User \<Rightarrow> (error + Menu) \<times> db" where
  "createMenuInRestaurant d restaurantId dto user =
     (case restaurant_findFirst d restaurantId of
        None \<Rightarrow> (Inl NotFoundException, d)
      | Some inst \<Rightarrow>
          if Some (u_id user) \<noteq> r_ownerId inst then (Inl ForbiddenException, d)
          else
            (case menu_findFirst_dish d (dishName dto) restaurantId of
               Some menuWithSameDishName \<Rightarrow> (Inl ConflictException, d)
             | None \<Rightarrow>
                 (case menu_create d restaurantId dto of
                    Inl c \<Rightarrow> (Inl (PrismaError c), d)
                  | Inr (menu, d1) \<Rightarrow> (Inr menu, d1))))"

text \<open>\<^verbatim>\<open>menu.update({ where: { id }, data: dto })\<close>\<close>

definition menu_update :: "db \<Rightarrow> int \<Rightarrow> MenuDto \<Rightarrow> prisma_code + (Menu \<times> db)" where
  "menu_update d i dto =
     (case menu_findFirst_id d i of
        None \<Rightarrow> Inl P2025
      | Some m \<Rightarrow>
          Inr (m\<lparr>m_dishName := dishName dto, m_price := price dto\<rparr>,
               d\<lparr>menus := map (\<lambda>x. if m_id x = i
                                      then x\<lparr>m_dishName := dishName dto, m_price := price dto\<rparr>
                                      else x) (menus d)\<rparr>))"

definition updateMenuById :: "db \<Rightarrow> int \<Rightarrow> MenuDto \<Rightarrow> User \<Rightarrow> (error + Menu) \<times> db" where
  "updateMenuById d mid dto user =
     (case menu_findFirst_id d mid of
        None \<Rightarrow> (Inl NotFoundException, d)
      | Some menu \<Rightarrow>
          (case restaurant_findFirst d (m_restaurantId menu) of
             None \<Rightarrow> (Inl TypeError, d)
           | Some restaurant \<Rightarrow>
               if Some (u_id user) \<noteq> r_ownerId restaurant then (Inl ForbiddenException, d)
               else
                 (case menu_findFirst_dish d (dishName dto) (m_restaurantId menu) of
                    Some menuWithSameDishName \<Rightarrow> (Inl ConflictException, d)
                  | None \<Rightarrow>
                      (case menu_update d mid dto of
                         Inl c \<Rightarrow> (Inl (PrismaError c), d)
                       | Inr (menu1, d1) \<Rightarrow> (Inr menu1, d1)))))"

text \<open>The two uniqueness invariants of the data model.\<close>

definition restaurant_names_unique :: "db \<Rightarrow> bool" where
  "restaurant_names_unique d = distinct (map r_restaurantName (restaurants d))"

definition dish_names_unique :: "db \<Rightarrow> bool" where
  "dish_names_unique d = distinct (map (\<lambda>m. (m_restaurantId m, m_dishName m)) (menus d))"

section \<open>RestaurantService: listing and search\<close>

text \<open>
  \<^verbatim>\<open>Array.prototype.sort\<close> with a comparator is stable; for a comparator that
  orders the elements by a key its result is the one stable arrangement, which
  insertion from the right computes.
\<close>

fun js_insort :: "('a \<Rightarrow> 'a \<Rightarrow> 'n::{zero,linorder}) \<Rightarrow> 'a \<Rightarrow> 'a list \<Rightarrow> 'a list" where
  "js_insort cmp x [] = [x]"
| "js_insort cmp x (y # ys) = (if cmp x y \<le> 0 then x # y # ys else y # js_insort cmp x ys)"

definition js_sort :: "('a \<Rightarrow> 'a \<Rightarrow> 'n::{zero,linorder}) \<Rightarrow> 'a list \<Rightarrow> 'a list" where
  "js_sort cmp xs = foldr (js_insort cmp) xs []"

text \<open>\<^verbatim>\<open>x ? x : dflt\<close> for an optional number: absent and zero are both falsy.\<close>

definition js_or :: "'a::zero option \<Rightarrow> 'a \<Rightarrow> 'a" where
  "js_or x dflt = (case x of None \<Rightarrow> dflt | Some v \<Rightarrow> if v = 0 then dflt else v)"

record Pagination =
  itemsperpage :: "int option"
  page :: "int option"

record RestaurantSearchQueryParams = Pagination +
  q :: string

record RestaurantQueryParams = Pagination +
  datetime :: "string option"
  pricelte :: "rat option"
  pricegte :: "rat option"
  dishlte :: "int option"
  dishgte :: "int option"
  sort_q :: "string option"

text \<open>
  Modelled from the spec: \<^verbatim>\<open>paginate\<close> of \<^verbatim>\<open>main.utils\<close>, which is not among
  the sources; it slices the list into the page of the given number and size. The
  services below take their paginator as an argument, and this one is what the
  results instantiate it with.
\<close>

definition paginate :: "'a list \<Rightarrow> int \<Rightarrow> int \<Rightarrow> 'a list" where
  "paginate xs itemsPerPage pageNo =
     take (nat itemsPerPage) (drop (nat ((pageNo - 1) * itemsPerPage)) xs)"

text \<open>
  The score of one restaurant: \<^verbatim>\<open>Math.max\<close> over the list that starts with the
  relevance of its name and goes on with the relevance of each dish name less 0.1.
  The numbers are of any linearly ordered type \<open>'n\<close>: \<^verbatim>\<open>getRelevance\<close> (of
  \<^verbatim>\<open>main.utils\<close>), the subtraction \<open>sub\<close> of that type and its constant
  \<open>tenth\<close> for 0.1 are arguments, so that the doubles of the code with their own
  subtraction are one instance.
\<close>

definition restaurant_relevance ::
  "(string \<Rightarrow> string \<Rightarrow> 'n::linorder) \<Rightarrow> ('n \<Rightarrow> 'n \<Rightarrow> 'n) \<Rightarrow> 'n
     \<Rightarrow> string \<Rightarrow> Restaurant \<Rightarrow> Menu list \<Rightarrow> 'n" where
  "restaurant_relevance getRelevance sub tenth query r ms =
     fold max (map (\<lambda>menu. sub (getRelevance query (m_dishName menu)) tenth) ms)
       (getRelevance query (r_restaurantName r))"

type_synonym 'n RestaurantScored = "Restaurant \<times> Menu list \<times> 'n"

definition relevance :: "'n RestaurantScored \<Rightarrow> 'n" where
  "relevance x = snd (snd x)"

text \<open>
  The list \<^verbatim>\<open>results\<close> after the scoring and the sort with the comparator
  \<^verbatim>\<open>(a, b) => b['relevance'] - a['relevance']\<close>.
\<close>

definition search_results ::
  "(string \<Rightarrow> string \<Rightarrow> 'n::{zero,linorder}) \<Rightarrow> ('n \<Rightarrow> 'n \<Rightarrow> 'n) \<Rightarrow> 'n
     \<Rightarrow> db \<Rightarrow> string \<Rightarrow> 'n RestaurantScored list" where
  "search_results getRelevance sub tenth d query =
     js_sort (\<lambda>a b. sub (relevance b) (relevance a))
       (map (\<lambda>(r, ms). (r, ms, restaurant_relevance getRelevance sub tenth query r ms))
          (restaurant_findMany_menus d))"

definition searchRestaurantByRelevance ::
  "(string \<Rightarrow> string \<Rightarrow> 'n::{zero,linorder}) \<Rightarrow> ('n \<Rightarrow> 'n \<Rightarrow> 'n) \<Rightarrow> 'n
     \<Rightarrow> ('n RestaurantScored list \<Rightarrow> int \<Rightarrow> int \<Rightarrow> 'p)
     \<Rightarrow> db \<Rightarrow> RestaurantSearchQueryParams \<Rightarrow> 'p" where
  "searchRestaurantByRelevance getRelevance sub tenth pg d query =
     (let results = search_results getRelevance sub tenth d (q query);
          itemsPerPage = js_or (itemsperpage query) 10;
          pageNo = js_or (page query) 1
      in pg results itemsPerPage pageNo)"

text \<open>The score the search is meant to give, as a maximum of a set.\<close>

definition score ::
  "(string \<Rightarrow> string \<Rightarrow> 'n::linorder) \<Rightarrow> ('n \<Rightarrow> 'n \<Rightarrow> 'n) \<Rightarrow> 'n
     \<Rightarrow> string \<Rightarrow> Restaurant \<Rightarrow> Menu list \<Rightarrow> 'n" where
  "score getRelevance sub tenth query r ms =
     Max (insert (getRelevance query (r_restaurantName r))
            ((\<lambda>menu. sub (getRelevance query (m_dishName menu)) tenth) ` set ms))"

record RestaurantListed =
  l_id :: int
  l_cashBalance :: rat
  l_openingHours :: string
  l_restaurantName :: string

definition listed :: "Restaurant \<Rightarrow> RestaurantListed" where
  "listed r = \<lparr>l_id = r_id r, l_cashBalance = r_cashBalance r,
                l_openingHours = r_openingHours r, l_restaurantName = r_restaurantName r\<rparr>"

definition dishCount :: "rat \<Rightarrow> rat \<Rightarrow> Menu list \<Rightarrow> int" where
  "dishCount pricegte_v pricelte_v ms =
     int (length (filter (\<lambda>menu. pricegte_v \<le> m_price menu \<and> m_price menu \<le> pricelte_v) ms))"

text \<open>The list \<^verbatim>\<open>restaurantsNew\<close>: the dish-count filter and the projection.\<close>

definition restaurantsNew ::
  "rat \<Rightarrow> rat \<Rightarrow> int \<Rightarrow> int \<Rightarrow> (Restaurant \<times> Menu list) list \<Rightarrow> RestaurantListed list" where
  "restaurantsNew pricegte_v pricelte_v dishgte_v dishlte_v rs =
     map (\<lambda>(r, ms). listed r)
       (filter (\<lambda>(r, ms). dishgte_v \<le> dishCount pricegte_v pricelte_v ms \<and>
                           dishCount pricegte_v pricelte_v ms \<le> dishlte_v) rs)"

text \<open>
  \<^verbatim>\<open>new Date\<close> with its \<^verbatim>\<open>Invalid Date\<close>, \<^verbatim>\<open>isStoreOpen\<close>,
  \<^verbatim>\<open>localeCompare\<close> and the paginator are arguments.
\<close>

definition getAllRestaurants ::
  "(string \<Rightarrow> 'd option) \<Rightarrow> ('d \<Rightarrow> string \<Rightarrow> bool) \<Rightarrow> (string \<Rightarrow> string \<Rightarrow> int)
     \<Rightarrow> (RestaurantListed list \<Rightarrow> int \<Rightarrow> int \<Rightarrow> 'p)
     \<Rightarrow> db \<Rightarrow> RestaurantQueryParams \<Rightarrow> error + 'p" where
  "getAllRestaurants parseDate isStoreOpen localeCompare pg d query =
     (case (case datetime query of
              None \<Rightarrow> Inr (restaurant_findMany_menus d)
            | Some s \<Rightarrow>
                if s = [] then Inr (restaurant_findMany_menus d)
                else
                  (case parseDate s of
                     None \<Rightarrow> Inl BadRequestException
                   | Some dateTimeFilter \<Rightarrow>
                       Inr (filter (\<lambda>(r, ms). isStoreOpen dateTimeFilter (r_openingHours r))
                              (restaurant_findMany_menus d)))) of
        Inl e \<Rightarrow> Inl e
      | Inr rs \<Rightarrow>
          let pricelte_v = js_or (pricelte query) 999999;
              pricegte_v = js_or (pricegte query) 0;
              dishlte_v = js_or (dishlte query) 10000;
              dishgte_v = js_or (dishgte query) 1;
              new = restaurantsNew pricegte_v pricelte_v dishgte_v dishlte_v rs;
              sortAlphabetically = (sort_q query = Some ''true'');
              sorted_new =
                (if sortAlphabetically
                 then js_sort (\<lambda>a b. localeCompare (l_restaurantName a) (l_restaurantName b)) new
                 else new);
              itemsPerPage = js_or (itemsperpage query) 10;
              pageNo = js_or (page query) 1
          in Inr (pg sorted_new itemsPerPage pageNo))"

text \<open>The query of a request without parameters.\<close>

definition no_params :: RestaurantQueryParams where
  "no_params = \<lparr>itemsperpage = None, page = None, datetime = None, pricelte = None,
                 pricegte = None, dishlte = None, dishgte = None, sort_q = None\<rparr>"

section \<open>A small store\<close>

text \<open>
  Two users, three restaurants (the third without a menu) and three dishes, for the
  concrete runs below.
\<close>

definition ex_buyer :: User where
  "ex_buyer = \<lparr>u_id = 1, u_cashBalance = 50, u_name = ''ann'', u_password = ''h1'',
                u_email = None\<rparr>"

definition ex_poor :: User where
  "ex_poor = \<lparr>u_id = 2, u_cashBalance = 3, u_name = ''bob'', u_password = ''h2'',
               u_email = None\<rparr>"

definition ex_store :: db where
  "ex_store =
     \<lparr>restaurants =
        [\<lparr>r_id = 1, r_cashBalance = 100, r_openingHours = ''Mon-Sun 9-21'',
          r_restaurantName = ''Warung'', r_ownerId = Some 1\<rparr>,
         \<lparr>r_id = 2, r_cashBalance = 0, r_openingHours = ''Mon-Fri 10-18'',
          r_restaurantName = ''Kedai'', r_ownerId = Some 1\<rparr>,
         \<lparr>r_id = 3, r_cashBalance = 0, r_openingHours = ''Sat 8-12'',
          r_restaurantName = ''Kosong'', r_ownerId = Some 2\<rparr>],
      users = [ex_buyer, ex_poor],
      menus =
        [\<lparr>m_id = 1, m_dishName = ''Nasi'', m_price = 5, m_restaurantId = 1\<rparr>,
         \<lparr>m_id = 2, m_dishName = ''Mie'', m_price = 7 / 2, m_restaurantId = 1\<rparr>,
         \<lparr>m_id = 3, m_dishName = ''Sate'', m_price = 10, m_restaurantId = 2\<rparr>],
      purchaseHistory = [],
      restaurant_seq = 4, menu_seq = 4, purchaseHistory_seq = 1\<rparr>"

text \<open>Two units of dish 1 and one of dish 3: 20 in all.\<close>

definition ex_order :: PurchaseDto where
  "ex_order = \<lparr>items = [\<lparr>menuId = 1, quantity = 2\<rparr>, \<lparr>menuId = 3, quantity = 1\<rparr>]\<rparr>"

text \<open>A request with an id that no menu has.\<close>

definition ex_unknown :: PurchaseDto where
  "ex_unknown = \<lparr>items = [\<lparr>menuId = 1, quantity = 1\<rparr>, \<lparr>menuId = 9, quantity = 1\<rparr>]\<rparr>"

text \<open>A request for minus one unit of dish 1.\<close>

definition ex_refund :: PurchaseDto where
  "ex_refund = \<lparr>items = [\<lparr>menuId = 1, quantity = - 1\<rparr>]\<rparr>"

text \<open>
  The same store with restaurant 1 at the largest amount its column holds, a request
  for one unit of its dish 1, and a request for one unit of dish 3 and then one of
  dish 1.
\<close>

definition ex_full :: db where
  "ex_full =
     ex_store\<lparr>restaurants :=
        [\<lparr>r_id = 1, r_cashBalance = 9999999999 / 100, r_openingHours = ''Mon-Sun 9-21'',
          r_restaurantName = ''Warung'', r_ownerId = Some 1\<rparr>,
         \<lparr>r_id = 2, r_cashBalance = 0, r_openingHours = ''Mon-Fri 10-18'',
          r_restaurantName = ''Kedai'', r_ownerId = Some 1\<rparr>,
         \<lparr>r_id = 3, r_cashBalance = 0, r_openingHours = ''Sat 8-12'',
          r_restaurantName = ''Kosong'', r_ownerId = Some 2\<rparr>]\<rparr>"

definition ex_single :: PurchaseDto where
  "ex_single = \<lparr>items = [\<lparr>menuId = 1, quantity = 1\<rparr>]\<rparr>"

definition ex_pair :: PurchaseDto where
  "ex_pair = \<lparr>items = [\<lparr>menuId = 3, quantity = 1\<rparr>, \<lparr>menuId = 1, quantity = 1\<rparr>]\<rparr>"

text \<open>
  A store with one dish at 0.10 and a buyer who holds 0.30, and the request for three
  units of the dish.
\<close>

definition ex_dime_buyer :: User where
  "ex_dime_buyer = \<lparr>u_id = 1, u_cashBalance = 3 / 10, u_name = ''ann'', u_password = ''h1'',
                     u_email = None\<rparr>"

definition ex_dimes :: db where
  "ex_dimes =
     \<lparr>restaurants =
        [\<lparr>r_id = 1, r_cashBalance = 0, r_openingHours = ''Mon-Sun 9-21'',
          r_restaurantName = ''Warung'', r_ownerId = Some 1\<rparr>],
      users = [ex_dime_buyer],
      menus = [\<lparr>m_id = 1, m_dishName = ''Teh'', m_price = 1 / 10, m_restaurantId = 1\<rparr>],
      purchaseHistory = [],
      restaurant_seq = 2, menu_seq = 2, purchaseHistory_seq = 1\<rparr>"

definition ex_three :: "rat Line list" where
  "ex_three = [\<lparr>line_menuId = 1, line_quantity = 3\<rparr>]"

text \<open>A request for half a unit of dish 1.\<close>

definition ex_half :: "rat Line list" where
  "ex_half = [\<lparr>line_menuId = 1, line_quantity = 1 / 2\<rparr>]"

text \<open>
  A relevance that knows only equality, a search for a dish name without page
  parameters, and the same search for the second page of two.
\<close>

definition ex_relevance :: "string \<Rightarrow> string \<Rightarrow> rat" where
  "ex_relevance query name = (if query = name then 1 else 0)"

definition ex_search :: RestaurantSearchQueryParams where
  "ex_search = \<lparr>itemsperpage = None, page = None, q = ''Sate''\<rparr>"

definition ex_search_paged :: RestaurantSearchQueryParams where
  "ex_search_paged = \<lparr>itemsperpage = Some 2, page = Some 2, q = ''Sate''\<rparr>"

text \<open>
  A relevance in doubles that finds 0.2 in the name of restaurant 2 and 0.3 in a dish
  name of restaurant 1.
\<close>

definition ex_relevance_d :: "string \<Rightarrow> string \<Rightarrow> rat" where
  "ex_relevance_d query name =
     (if name = ''Kedai'' then binary64 (2 / 10)
      else if name = ''Nasi'' then binary64 (3 / 10) else 0)"

section \<open>Properties of the purchase flow\<close>


lemma totalPrice_loop_unresolved:
  "\<not> all_resolve d its \<Longrightarrow> totalPrice_loop d its acc = Inl BadRequestException"
  by (induction its arbitrary: acc)
     (auto simp: all_resolve_def split: option.splits)

lemma find_Some_mem: "find P xs = Some x \<Longrightarrow> x \<in> set xs \<and> P x"
  by (induction xs) (auto split: if_splits)

lemma find_None_iff_no: "find P xs = None \<longleftrightarrow> (\<forall>x \<in> set xs. \<not> P x)"
  by (induction xs) auto

lemma find_key_iff: "find (\<lambda>x. f x = k) xs \<noteq> None \<longleftrightarrow> k \<in> set (map f xs)"
  by (auto simp: find_None_iff_no)

subsection \<open>Crediting a restaurant\<close>

lemma credit_ids [simp]: "map r_id (credit rid a rs) = map r_id rs"
  by (induction rs) (auto simp: credit_def)



subsection \<open>What depends on which table\<close>



subsection \<open>What the loops never touch\<close>




subsection \<open>What a run that succeeds has done\<close>





subsection \<open>The two explicit failures come before every write\<close>

lemma unit_loop_errors:
  "fst (unit_loop now user menu n ps d) \<noteq> Inl PaymentRequired \<and>
   fst (unit_loop now user menu n ps d) \<noteq> Inl BadRequestException"
  by (induction n arbitrary: ps d)
     (auto split: option.splits sum.splits prod.splits)

lemma item_loop_errors:
  "fst (item_loop now user its ps d) \<noteq> Inl PaymentRequired \<and>
   fst (item_loop now user its ps d) \<noteq> Inl BadRequestException"
proof (induction its arbitrary: ps d)
  case Nil
  show ?case by simp
next
  case (Cons it its)
  show ?case
  proof (cases "unit_loop now user (menu_findFirst_id d (menuId it)) (nat (quantity it)) ps d")
    case (Pair res da)
    show ?thesis
    proof (cases res)
      case (Inl e)
      with Pair unit_loop_errors [of now user "menu_findFirst_id d (menuId it)" "nat (quantity it)" ps d]
      show ?thesis by simp
    next
      case (Inr psa)
      with Pair Cons.IH [of psa da] show ?thesis by simp
    qed
  qed
qed

lemma purchaseDish_throws_before_writes:
  assumes "fst (purchaseDish now d dto user) = Inl PaymentRequired \<or>
           fst (purchaseDish now d dto user) = Inl BadRequestException"
  shows "snd (purchaseDish now d dto user) = d"
proof (cases "totalPrice_loop d (items dto) 0")
  case (Inl e)
  then show ?thesis by (simp add: purchaseDish_def)
next
  case (Inr total)
  show ?thesis
  proof (cases "u_cashBalance user < total")
    case True
    with Inr show ?thesis by (simp add: purchaseDish_def)
  next
    case False
    with Inr assms item_loop_errors [of now user "items dto" "[]" d] show ?thesis
      by (auto simp: purchaseDish_def split: prod.splits sum.splits)
  qed
qed

section \<open>The rounding of doubles\<close>

text \<open>What the simplifier needs to compute the nearest double to a numeral.\<close>

lemma floor_numeral_quotient:
  "\<lfloor>numeral a / numeral b :: rat\<rfloor> = numeral a div numeral b"
  using floor_divide_of_int_eq [of "numeral a" "numeral b", where ?'a = rat] by simp

lemmas binary64_simps =
  binary64_def scale_up.simps scale_down.simps round_half_even_def Let_def
  floor_numeral_quotient

lemma ceiling_half: "\<lceil>1 / 2 :: rat\<rceil> = 1"
  by (rule ceiling_unique) simp_all

subsection \<open>The significand and the error\<close>

lemma scale_up_ge: "0 < x \<Longrightarrow> 2 ^ 52 \<le> fst (scale_up x e)"
proof (induction x e rule: scale_up.induct)
  case (1 x e)
  show ?case
  proof (cases "x < 2 ^ 52")
    case True
    with 1 show ?thesis by (subst scale_up.simps) simp
  next
    case False
    then show ?thesis by (subst scale_up.simps) simp
  qed
qed

lemma scale_down_ge: "2 ^ 52 \<le> x \<Longrightarrow> 2 ^ 52 \<le> fst (scale_down x e)"
proof (induction x e rule: scale_down.induct)
  case (1 x e)
  show ?case
  proof (cases "2 ^ 53 \<le> x")
    case True
    with 1 show ?thesis by (subst scale_down.simps) simp
  next
    case False
    with 1 show ?thesis by (subst scale_down.simps) simp
  qed
qed

lemma round_half_even_pos: "1 \<le> x \<Longrightarrow> 0 < round_half_even x"
proof -
  assume "1 \<le> x"
  then have "1 \<le> \<lfloor>x\<rfloor>" by (simp add: le_floor_iff)
  then show ?thesis by (simp add: round_half_even_def Let_def)
qed

text \<open>Rounding to a double keeps the sign.\<close>

lemma binary64_sign: "binary64 x \<le> 0 \<longleftrightarrow> x \<le> 0"
proof (cases "x = 0")
  case True
  then show ?thesis by (simp add: binary64_def)
next
  case False
  obtain y e1 where up: "scale_up \<bar>x\<bar> 0 = (y, e1)" by (cases "scale_up \<bar>x\<bar> 0")
  obtain m e where down: "scale_down y e1 = (m, e)" by (cases "scale_down y e1")
  from False have "2 ^ 52 \<le> fst (scale_up \<bar>x\<bar> 0)" by (intro scale_up_ge) simp
  then have "2 ^ 52 \<le> y" by (simp add: up)
  then have "2 ^ 52 \<le> fst (scale_down y e1)" by (rule scale_down_ge)
  then have "2 ^ 52 \<le> m" by (simp add: down)
  then have "1 \<le> m" by (rule order_trans [rotated]) simp
  then have "0 < round_half_even m" by (rule round_half_even_pos)
  define c :: rat where
    "c = of_int (round_half_even m) * (if 0 \<le> e then 2 ^ nat e else 1 / 2 ^ nat (- e))"
  have pos: "0 < c"
    unfolding c_def using \<open>0 < round_half_even m\<close> by simp
  have eq: "binary64 x = sgn x * c"
    using False by (simp add: binary64_def up down c_def)
  show ?thesis
  proof (cases "0 < x")
    case True
    with pos show ?thesis by (simp add: eq)
  next
    case False
    with \<open>x \<noteq> 0\<close> have "x < 0" by simp
    with pos show ?thesis by (simp add: eq)
  qed
qed





subsection \<open>Cents through doubles\<close>



section \<open>The loops over numbers\<close>

text \<open>The first loop returns the sum when every id resolves, and only then.\<close>

lemma totalPrice_loop_n_fold:
  assumes "lines_resolve d its"
  shows "totalPrice_loop_n A d its acc =
     Inr (foldl (\<lambda>acc it. n_add A acc
              (n_mul A (toNumber A (m_price (the (menu_findFirst_id d (line_menuId it)))))
                 (line_quantity it))) acc its)"
  using assms by (induction its arbitrary: acc) (auto simp: lines_resolve_def)

lemma totalPrice_loop_n_resolves:
  "totalPrice_loop_n A d its acc = Inr t \<Longrightarrow> lines_resolve d its"
  by (induction its arbitrary: acc) (auto simp: lines_resolve_def split: option.splits)


subsection \<open>The second loop in doubles on column values\<close>





section \<open>The other steps over the numbers of the code\<close>

lemma unit_loop_n_frame:
  "users (snd (unit_loop_n A now user menu n ps d)) = users d \<and>
   menus (snd (unit_loop_n A now user menu n ps d)) = menus d"
proof (induction n arbitrary: ps d)
  case 0
  show ?case by simp
next
  case (Suc n)
  show ?case
  proof (cases menu)
    case None
    then show ?thesis by simp
  next
    case (Some m)
    show ?thesis
    proof (cases "purchaseHistory_create d (m_id m) (u_id user) now")
      case (Inl c)
      with Some show ?thesis by simp
    next
      case (Inr pr)
      obtain row da where pr: "pr = (row, da)" by (cases pr)
      have da: "users da = users d" "menus da = menus d"
        using Inr pr by (auto simp: purchaseHistory_create_def Let_def split: if_splits)
      show ?thesis
      proof (cases "restaurant_findFirst da (m_restaurantId m)")
        case None
        with Some Inr pr da show ?thesis by simp
      next
        case (Some r)
        show ?thesis
        proof (cases "restaurant_update_cashBalance da (m_restaurantId m)
                        (toDecimal A (n_add A (toNumber A (r_cashBalance r))
                                             (toNumber A (m_price m))))")
          case (Inl c)
          with Some \<open>menu = Some m\<close> Inr pr da show ?thesis by simp
        next
          case (Inr dc)
          then have dc: "users dc = users da" "menus dc = menus da"
            by (auto simp: restaurant_update_cashBalance_def split: if_splits)
          show ?thesis
            using Suc.IH [of "ps @ [row]" dc] Some \<open>menu = Some m\<close>
              \<open>purchaseHistory_create d (m_id m) (u_id user) now = Inr pr\<close> pr Inr da dc
            by simp
        qed
      qed
    qed
  qed
qed

lemma item_loop_n_frame:
  "users (snd (item_loop_n A now user its ps d)) = users d \<and>
   menus (snd (item_loop_n A now user its ps d)) = menus d"
proof (induction its arbitrary: ps d)
  case Nil
  show ?case by simp
next
  case (Cons it its)
  show ?case
  proof (cases "unit_loop_n A now user (menu_findFirst_id d (line_menuId it))
                  (iterations A (line_quantity it)) ps d")
    case (Pair res da)
    with unit_loop_n_frame [of A now user "menu_findFirst_id d (line_menuId it)"
        "iterations A (line_quantity it)" ps d]
    have da: "users da = users d" "menus da = menus d" by simp_all
    show ?thesis
    proof (cases res)
      case (Inl e)
      with Pair da show ?thesis by simp
    next
      case (Inr ps1)
      with Pair da Cons.IH [of ps1 da] show ?thesis by simp
    qed
  qed
qed

text \<open>
  Whatever the numbers: a request with a menu id that no menu has ends in the
  bad-request error before any write; and a request that succeeds has written the
  balance of the buyer once, as the balance of the user object less the computed total.
\<close>

lemma purchaseDish_n_unknown_menu:
  assumes "\<not> lines_resolve d its"
  shows "purchaseDish_n A now d its user = (Inl BadRequestException, d)"
proof -
  have "totalPrice_loop_n A d its acc = Inl BadRequestException" for acc
    using assms
    by (induction its arbitrary: acc) (auto simp: lines_resolve_def split: option.splits)
  then show ?thesis by (simp add: purchaseDish_n_def)
qed

lemma purchaseDish_n_buyer_debit:
  assumes "purchaseDish_n A now d its user = (Inr purchases, d2)"
  shows "users d2 =
     map (\<lambda>u. if u_name u = u_name user
               then u\<lparr>u_cashBalance :=
                      toDecimal A (n_sub A (toNumber A (u_cashBalance user)) (total_n A d its))\<rparr>
               else u) (users d)"
proof -
  obtain t where tot: "totalPrice_loop_n A d its (n_zero A) = Inr t"
    using assms by (auto simp: purchaseDish_n_def split: sum.splits)
  from totalPrice_loop_n_fold [OF totalPrice_loop_n_resolves [OF tot], of A "n_zero A"] tot
  have t: "t = total_n A d its"
    by (simp add: total_n_def)
  from assms tot have settle: "settle_n A now d its user t = (Inr purchases, d2)"
    by (simp add: purchaseDish_n_def)
  obtain r1 d1 where il: "item_loop_n A now user its [] d = (r1, d1)"
    by (cases "item_loop_n A now user its [] d")
  from item_loop_n_frame [of A now user its "[]" d] il have d1: "users d1 = users d"
    by simp
  from settle il
  have upd: "user_update_cashBalance d1 (u_name user)
      (toDecimal A (n_sub A (toNumber A (u_cashBalance user)) t)) = Inr d2"
    by (auto simp: settle_n_def split: if_splits sum.splits)
  then show ?thesis
    unfolding t using d1 by (auto simp: user_update_cashBalance_def split: if_splits)
qed
section \<open>The claims about the purchase flow\<close>

lemmas ex_simps =
  ex_store_def ex_buyer_def ex_poor_def ex_order_def ex_unknown_def ex_refund_def
  ex_full_def ex_single_def ex_pair_def
  all_resolve_def request_total_def line_price_def owed_def units_of_def purchase_ref_def
  menu_findFirst_id_def menu_findFirst_dish_def restaurant_findFirst_def
  user_findUnique_def user_findFirst_id_def fits_decimal_10_2_def
  purchaseHistory_create_def restaurant_update_cashBalance_def user_update_cashBalance_def
  purchaseDish_def Let_def


lemma ex_order_resolves: "all_resolve ex_store (items ex_order)"
  by (simp add: ex_simps)



lemmas n_simps =
  purchaseDish_n_def settle_n_def total_n_def lines_resolve_def double_def line_of_def
  round_cents_def ex_half_def

text \<open>
  C1. The transfer of a request is meant to be all or nothing. On the store where
  restaurant 1 holds 99999999.99, the buyer, who has 50, asks for one unit of dish 3
  (price 10, restaurant 2) and one unit of dish 1 (price 5, restaurant 1). Both ids
  resolve and the balance covers the total of 15. In the numbers of the code, the call
  records both units and credits restaurant 2; the credit of restaurant 1 is out of
  the range of its column, the call ends in that error, and nothing is undone: two
  purchase rows and the 10 of restaurant 2 stay, and the buyer still has 50. The run
  on exact amounts is the same.
\<close>

theorem purchaseDish_partial_write:
  "purchaseHistory ex_full = [] \<and>
   map r_cashBalance (restaurants ex_full) = [9999999999 / 100, 0, 0] \<and>
   map u_cashBalance (users ex_full) = [50, 3] \<and>
   lines_resolve ex_full (map line_of (items ex_pair)) \<and>
   total_n double ex_full (map line_of (items ex_pair)) = 15 \<and>
   fst (purchaseDish_n double 7 ex_full (map line_of (items ex_pair)) ex_buyer) =
     Inl (PrismaError P2020) \<and>
   map purchase_ref
     (purchaseHistory (snd (purchaseDish_n double 7 ex_full (map line_of (items ex_pair)) ex_buyer))) =
     [(3, 1, 7), (1, 1, 7)] \<and>
   map r_cashBalance
     (restaurants (snd (purchaseDish_n double 7 ex_full (map line_of (items ex_pair)) ex_buyer))) =
     [9999999999 / 100, 10, 0] \<and>
   map u_cashBalance
     (users (snd (purchaseDish_n double 7 ex_full (map line_of (items ex_pair)) ex_buyer))) =
     [50, 3] \<and>
   purchaseDish 7 ex_full ex_pair ex_buyer =
     purchaseDish_n double 7 ex_full (map line_of (items ex_pair)) ex_buyer"
  by (simp add: n_simps binary64_simps ex_simps eval_nat_numeral)

text \<open>
  Nor does the call look at the quantity. For minus one unit of dish 1 the total is
  minus 5, the inner loop makes no iteration, and the call succeeds: the buyer, who
  had 50, has 55, and no restaurant balance and no purchase row has changed. For half
  a unit of dish 1 the total is 2.50 and the inner loop makes one iteration: the buyer
  pays 2.50 and restaurant 1 receives 5.
\<close>

lemma purchaseDish_negative_quantity:
  "u_cashBalance ex_buyer = 50 \<and>
   purchaseDish_n double 7 ex_store (map line_of (items ex_refund)) ex_buyer =
     (Inr [], ex_store\<lparr>users := [ex_buyer\<lparr>u_cashBalance := 55\<rparr>, ex_poor]\<rparr>) \<and>
   purchaseDish 7 ex_store ex_refund ex_buyer =
     purchaseDish_n double 7 ex_store (map line_of (items ex_refund)) ex_buyer"
  by (simp add: n_simps binary64_simps ex_simps)

lemma purchaseDish_half_unit:
  "fst (purchaseDish_n double 7 ex_store ex_half ex_buyer) =
     Inr [\<lparr>p_id = 1, p_transactionDate = 7, p_menuId = 1, p_userId = 1\<rparr>] \<and>
   map r_cashBalance (restaurants (snd (purchaseDish_n double 7 ex_store ex_half ex_buyer))) =
     [105, 0, 0] \<and>
   map u_cashBalance (users (snd (purchaseDish_n double 7 ex_store ex_half ex_buyer))) =
     [95 / 2, 3]"
  by (simp add: n_simps binary64_simps ex_simps ceiling_half)




text \<open>
  C5. A request with a menu id that no menu has fails as a whole with the
  bad-request error and leaves the store as it was, whatever its other line items.
\<close>

theorem purchaseDish_unknown_menu:
  assumes "\<exists>it \<in> set (items dto). menu_findFirst_id d (menuId it) = None"
  shows "purchaseDish now d dto user = (Inl BadRequestException, d)"
proof -
  from assms have "\<not> all_resolve d (items dto)"
    by (auto simp: all_resolve_def list_all_iff)
  then show ?thesis
    by (simp add: purchaseDish_def totalPrice_loop_unresolved)
qed

theorem purchaseDish_unknown_menu_witness:
  "(\<exists>it \<in> set (items ex_unknown). menu_findFirst_id ex_store (menuId it) = None) \<and>
   purchaseDish 7 ex_store ex_unknown ex_buyer = (Inl BadRequestException, ex_store)"
proof -
  have h: "\<exists>it \<in> set (items ex_unknown). menu_findFirst_id ex_store (menuId it) = None"
    by (simp add: ex_simps)
  from h purchaseDish_unknown_menu [OF h] show ?thesis by simp
qed



section \<open>The claims about the total and the balance check\<close>

text \<open>With the rationals the functions over numbers are the functions on exact amounts.\<close>

lemma totalPrice_loop_n_exact:
  "totalPrice_loop_n exact d (map line_of its) acc = totalPrice_loop d its acc"
  by (induction its arbitrary: acc) (auto simp: exact_def line_of_def split: option.splits)

lemma unit_loop_n_exact: "unit_loop_n exact now user menu n ps d = unit_loop now user menu n ps d"
  by (induction n arbitrary: ps d)
     (auto simp: exact_def split: option.splits sum.splits prod.splits)

lemma item_loop_n_exact:
  "item_loop_n exact now user (map line_of its) ps d = item_loop now user its ps d"
proof (induction its arbitrary: ps d)
  case Nil
  show ?case by simp
next
  case (Cons it its)
  have "iterations exact (line_quantity (line_of it)) = nat (quantity it)"
    by (simp add: exact_def line_of_def)
  moreover have "line_menuId (line_of it) = menuId it"
    by (simp add: line_of_def)
  ultimately show ?case
    using Cons.IH by (simp add: unit_loop_n_exact split: prod.splits sum.splits)
qed

lemma purchaseDish_n_exact:
  "purchaseDish_n exact now d (map line_of (items dto)) user = purchaseDish now d dto user"
proof -
  have "settle_n exact now d (map line_of (items dto)) user t =
      (if u_cashBalance user < t then (Inl PaymentRequired, d)
       else (case item_loop now user (items dto) [] d of
               (Inl e, d1) \<Rightarrow> (Inl e, d1)
             | (Inr purchases, d1) \<Rightarrow>
                 (case user_update_cashBalance d1 (u_name user) (u_cashBalance user - t) of
                    Inl c \<Rightarrow> (Inl (PrismaError c), d1)
                  | Inr d2 \<Rightarrow> (Inr purchases, d2))))" for t
    unfolding settle_n_def item_loop_n_exact
    by (simp add: exact_def split: prod.splits sum.splits)
  then show ?thesis
    unfolding purchaseDish_n_def purchaseDish_def totalPrice_loop_n_exact
    by (simp add: exact_def split: sum.splits)
qed

lemma unit_loop_n_errors:
  "fst (unit_loop_n A now user menu n ps d) \<noteq> Inl PaymentRequired"
  by (induction n arbitrary: ps d)
     (auto split: option.splits sum.splits prod.splits)

lemma item_loop_n_errors:
  "fst (item_loop_n A now user its ps d) \<noteq> Inl PaymentRequired"
proof (induction its arbitrary: ps d)
  case Nil
  show ?case by simp
next
  case (Cons it its)
  show ?case
  proof (cases "unit_loop_n A now user (menu_findFirst_id d (line_menuId it))
                  (iterations A (line_quantity it)) ps d")
    case (Pair res da)
    show ?thesis
    proof (cases res)
      case (Inl e)
      with Pair unit_loop_n_errors [of A now user "menu_findFirst_id d (line_menuId it)"
          "iterations A (line_quantity it)" ps d]
      show ?thesis by simp
    next
      case (Inr psa)
      with Pair Cons.IH [of psa da] show ?thesis by simp
    qed
  qed
qed

lemma binary64_tenth: "binary64 (1 / 10) = 3602879701896397 / 36028797018963968"
  by (simp add: binary64_simps)

lemma binary64_three_tenths: "binary64 (3 / 10) = 5404319552844595 / 18014398509481984"
  by (simp add: binary64_simps)

lemma binary64_three_dimes:
  "binary64 (0 + binary64 (binary64 (1 / 10) * 3)) = 5404319552844596 / 18014398509481984"
  by (simp add: binary64_simps)

lemma ex_three_resolves: "lines_resolve ex_dimes ex_three"
  by (simp add: lines_resolve_def ex_dimes_def ex_three_def menu_findFirst_id_def)

lemma ex_three_total:
  "total_n double ex_dimes ex_three = 5404319552844596 / 18014398509481984"
  using binary64_three_dimes
  by (simp add: total_n_def double_def ex_dimes_def ex_three_def menu_findFirst_id_def)

text \<open>
  C3, as amended. When every menu id of the request resolves, the total that the
  first loop of \<open>purchaseDish\<close> computes, and with which the function goes on, is
  the sum over the line items of unit price times quantity taken in the numbers of the
  code: from zero, in the order of the items, every price read as a double and every
  product and partial sum rounded to a double.
\<close>

theorem purchaseDish_n_total:
  assumes "lines_resolve d its"
  shows "totalPrice_loop_n A d its (n_zero A) = Inr (total_n A d its) \<and>
         purchaseDish_n A now d its user = settle_n A now d its user (total_n A d its)"
  using totalPrice_loop_n_fold [OF assms, of A "n_zero A"]
  by (simp add: purchaseDish_n_def total_n_def)

theorem purchaseDish_n_total_witness:
  "lines_resolve ex_dimes ex_three \<and>
   totalPrice_loop_n double ex_dimes ex_three 0 =
     Inr (5404319552844596 / 18014398509481984) \<and>
   purchaseDish_n double 7 ex_dimes ex_three ex_dime_buyer =
     settle_n double 7 ex_dimes ex_three ex_dime_buyer (5404319552844596 / 18014398509481984)"
proof -
  have zero: "n_zero double = 0"
    by (simp add: double_def)
  from purchaseDish_n_total [OF ex_three_resolves, of double 7 ex_dime_buyer] ex_three_resolves
  show ?thesis
    unfolding ex_three_total zero by simp
qed

text \<open>
  C3 as it was stated fails for three units of a dish at 0.10: the code's total is the
  double above 0.30, 0.3000000000000000444, where unit price times quantity is 0.30.
\<close>

theorem purchaseDish_total_rounded:
  "lines_resolve ex_dimes ex_three \<and>
   map (\<lambda>it. (m_price (the (menu_findFirst_id ex_dimes (line_menuId it))), line_quantity it))
     ex_three = [(1 / 10, 3)] \<and>
   (1 / 10 :: rat) * 3 = 3 / 10 \<and>
   totalPrice_loop_n double ex_dimes ex_three (n_zero double) =
     Inr (5404319552844596 / 18014398509481984) \<and>
   (3 / 10 :: rat) < 5404319552844596 / 18014398509481984"
proof -
  have "totalPrice_loop_n double ex_dimes ex_three (n_zero double) =
      Inr (5404319552844596 / 18014398509481984)"
    using totalPrice_loop_n_fold [OF ex_three_resolves, of double "n_zero double"]
      ex_three_total
    by (simp add: total_n_def)
  moreover have "map (\<lambda>it. (m_price (the (menu_findFirst_id ex_dimes (line_menuId it))),
        line_quantity it)) ex_three = [(1 / 10, 3)]"
    by (simp add: ex_dimes_def ex_three_def menu_findFirst_id_def)
  ultimately show ?thesis
    using ex_three_resolves by simp
qed

text \<open>
  C4. When every menu id resolves, \<open>purchaseDish\<close> answers 402 exactly when the
  balance of the user object, read as a number, is less than the total that the first
  loop computed, in the comparison of the numbers of the code; and then the store is
  as it was.
\<close>

theorem purchaseDish_n_payment_required:
  assumes "lines_resolve d its"
  shows "(fst (purchaseDish_n A now d its user) = Inl PaymentRequired
            \<longleftrightarrow> n_less A (toNumber A (u_cashBalance user)) (total_n A d its)) \<and>
         (fst (purchaseDish_n A now d its user) = Inl PaymentRequired
            \<longrightarrow> snd (purchaseDish_n A now d its user) = d)"
proof -
  note run = totalPrice_loop_n_fold [OF assms, of A "n_zero A", folded total_n_def]
  show ?thesis
  proof (cases "n_less A (toNumber A (u_cashBalance user)) (total_n A d its)")
    case True
    then show ?thesis
      by (simp add: purchaseDish_n_def run settle_n_def)
  next
    case False
    have "fst (purchaseDish_n A now d its user) \<noteq> Inl PaymentRequired"
      using False item_loop_n_errors [of A now user its "[]" d]
      by (auto simp: purchaseDish_n_def run settle_n_def split: prod.splits sum.splits)
    with False show ?thesis by simp
  qed
qed

text \<open>
  The buyer who holds 0.30 asks for three units at 0.10: the balance reads as the
  double below 0.30, the total is the double above it, and the call answers 402.
\<close>

theorem purchaseDish_n_payment_required_witness:
  "lines_resolve ex_dimes ex_three \<and>
   toNumber double (u_cashBalance ex_dime_buyer) = 5404319552844595 / 18014398509481984 \<and>
   total_n double ex_dimes ex_three = 5404319552844596 / 18014398509481984 \<and>
   fst (purchaseDish_n double 7 ex_dimes ex_three ex_dime_buyer) = Inl PaymentRequired \<and>
   snd (purchaseDish_n double 7 ex_dimes ex_three ex_dime_buyer) = ex_dimes"
proof -
  have balance: "toNumber double (u_cashBalance ex_dime_buyer) =
      5404319552844595 / 18014398509481984"
    using binary64_three_tenths by (simp add: double_def ex_dime_buyer_def)
  have "n_less double (toNumber double (u_cashBalance ex_dime_buyer))
          (total_n double ex_dimes ex_three)"
    unfolding balance ex_three_total by (simp add: double_def)
  with purchaseDish_n_payment_required [OF ex_three_resolves, of double 7 ex_dime_buyer]
  have "fst (purchaseDish_n double 7 ex_dimes ex_three ex_dime_buyer) = Inl PaymentRequired"
    and "snd (purchaseDish_n double 7 ex_dimes ex_three ex_dime_buyer) = ex_dimes"
    by blast+
  with ex_three_resolves balance ex_three_total show ?thesis
    by (intro conjI)
qed

section \<open>The claims about restaurants and menus\<close>

text \<open>
  C9. For a menu that exists and the user who owns its restaurant,
  \<open>updateMenuById\<close> with the dish name the menu already has answers with the
  conflict error and changes nothing: the search for a menu of that name in that
  restaurant finds the menu itself.
\<close>

theorem updateMenuById_same_name:
  assumes "menu_findFirst_id d mid = Some menu"
    and "restaurant_findFirst d (m_restaurantId menu) = Some restaurant"
    and "r_ownerId restaurant = Some (u_id user)"
    and "dishName dto = m_dishName menu"
  shows "updateMenuById d mid dto user = (Inl ConflictException, d)"
proof -
  from assms(1) have "menu \<in> set (menus d)"
    by (auto simp: menu_findFirst_id_def dest: find_Some_mem)
  then have "menu_findFirst_dish d (dishName dto) (m_restaurantId menu) \<noteq> None"
    using assms(4) by (auto simp: menu_findFirst_dish_def find_None_iff_no)
  with assms show ?thesis
    by (auto simp: updateMenuById_def)
qed

theorem updateMenuById_same_name_witness:
  "menu_findFirst_id ex_store 1 =
     Some \<lparr>m_id = 1, m_dishName = ''Nasi'', m_price = 5, m_restaurantId = 1\<rparr> \<and>
   restaurant_findFirst ex_store 1 =
     Some \<lparr>r_id = 1, r_cashBalance = 100, r_openingHours = ''Mon-Sun 9-21'',
           r_restaurantName = ''Warung'', r_ownerId = Some 1\<rparr> \<and>
   updateMenuById ex_store 1 \<lparr>dishName = ''Nasi'', price = 6\<rparr> ex_buyer =
     (Inl ConflictException, ex_store)"
proof -
  have m: "menu_findFirst_id ex_store 1 =
      Some \<lparr>m_id = 1, m_dishName = ''Nasi'', m_price = 5, m_restaurantId = 1\<rparr>"
    by (simp add: ex_simps)
  have r: "restaurant_findFirst ex_store
        (m_restaurantId \<lparr>m_id = 1, m_dishName = ''Nasi'', m_price = 5, m_restaurantId = 1\<rparr>) =
      Some \<lparr>r_id = 1, r_cashBalance = 100, r_openingHours = ''Mon-Sun 9-21'',
            r_restaurantName = ''Warung'', r_ownerId = Some 1\<rparr>"
    by (simp add: ex_simps)
  have "updateMenuById ex_store 1 \<lparr>dishName = ''Nasi'', price = 6\<rparr> ex_buyer =
      (Inl ConflictException, ex_store)"
    by (rule updateMenuById_same_name [OF m r]) (simp_all add: ex_buyer_def)
  with m r show ?thesis by simp
qed

text \<open>
  Creating a menu does keep the dish names of a restaurant apart: a name that the
  restaurant already has is refused with the conflict error, and whatever the outcome
  the invariant survives.
\<close>

lemma createMenuInRestaurant_duplicate:
  assumes "restaurant_findFirst d rid = Some inst" and "r_ownerId inst = Some (u_id user)"
    and "\<exists>m \<in> set (menus d). m_dishName m = dishName dto \<and> m_restaurantId m = rid"
  shows "createMenuInRestaurant d rid dto user = (Inl ConflictException, d)"
proof -
  from assms(3) have "menu_findFirst_dish d (dishName dto) rid \<noteq> None"
    by (auto simp: menu_findFirst_dish_def find_None_iff_no)
  with assms(1,2) show ?thesis
    by (auto simp: createMenuInRestaurant_def)
qed

lemma createMenuInRestaurant_keeps_unique:
  assumes "dish_names_unique d"
  shows "dish_names_unique (snd (createMenuInRestaurant d rid dto user))"
proof (cases "menu_findFirst_dish d (dishName dto) rid")
  case None
  then have "(rid, dishName dto) \<notin> set (map (\<lambda>m. (m_restaurantId m, m_dishName m)) (menus d))"
    by (auto simp: menu_findFirst_dish_def find_None_iff_no)
  with assms None show ?thesis
    by (auto simp: createMenuInRestaurant_def menu_create_def dish_names_unique_def Let_def
        split: option.splits)
next
  case (Some m)
  with assms show ?thesis
    by (auto simp: createMenuInRestaurant_def split: option.splits)
qed

text \<open>
  Creating a restaurant never answers with the conflict error: the create of the
  store has no unique column to violate.
\<close>

lemma createRestaurant_no_conflict:
  "fst (createRestaurant d dto user) \<noteq> Inl ConflictException"
  by (simp add: createRestaurant_def restaurant_create_def Let_def)

text \<open>
  C8. Restaurant names are meant to be unique and \<open>createRestaurant\<close> to refuse
  a second restaurant of a name with the conflict error. On the small store, whose
  names are unique, the owner of the restaurant Warung creates another Warung: the call
  succeeds with a new row, and the names of the store are unique no longer.
\<close>

theorem createRestaurant_duplicate_name:
  "restaurant_names_unique ex_store \<and>
   fst (createRestaurant ex_store
          \<lparr>restaurantName = ''Warung'', openingHours = ''Mon-Sun 9-21''\<rparr> ex_buyer) =
     Inr \<lparr>r_id = 4, r_cashBalance = 0, r_openingHours = ''Mon-Sun 9-21'',
          r_restaurantName = ''Warung'', r_ownerId = Some 1\<rparr> \<and>
   \<not> restaurant_names_unique
        (snd (createRestaurant ex_store
                \<lparr>restaurantName = ''Warung'', openingHours = ''Mon-Sun 9-21''\<rparr> ex_buyer))"
  by (simp add: createRestaurant_def restaurant_create_def restaurant_names_unique_def
      ex_store_def ex_buyer_def ex_poor_def user_findFirst_id_def Let_def)

section \<open>The claims about listing and search\<close>

lemma mset_js_insort: "mset (js_insort cmp x xs) = add_mset x (mset xs)"
  by (induction xs) auto

lemma mset_js_sort: "mset (js_sort cmp xs) = mset xs"
  by (induction xs) (simp_all add: js_sort_def mset_js_insort)

lemma set_js_insort: "set (js_insort cmp x xs) = insert x (set xs)"
  using arg_cong [OF mset_js_insort [of cmp x xs], of set_mset] by simp

lemma sorted_js_insort:
  fixes key :: "'a \<Rightarrow> 'n::{zero,linorder}"
  assumes sign: "\<And>a b. sub b a \<le> 0 \<longleftrightarrow> b \<le> a"
    and "sorted_wrt (\<lambda>a b. key b \<le> key a) xs"
  shows "sorted_wrt (\<lambda>a b. key b \<le> key a) (js_insort (\<lambda>a b. sub (key b) (key a)) x xs)"
  using assms(2)
proof (induction xs)
  case Nil
  show ?case by simp
next
  case (Cons y ys)
  show ?case
  proof (cases "key y \<le> key x")
    case True
    with Cons.prems show ?thesis
      by (auto simp: sign)
  next
    case False
    then have "key x \<le> key y" by simp
    with False Cons show ?thesis
      by (auto simp: sign set_js_insort)
  qed
qed

lemma sorted_js_sort:
  fixes key :: "'a \<Rightarrow> 'n::{zero,linorder}"
  assumes sign: "\<And>a b. sub b a \<le> 0 \<longleftrightarrow> b \<le> a"
  shows "sorted_wrt (\<lambda>a b. key b \<le> key a) (js_sort (\<lambda>a b. sub (key b) (key a)) xs)"
proof (induction xs)
  case Nil
  show ?case by (simp add: js_sort_def)
next
  case (Cons x xs)
  have "js_sort (\<lambda>a b. sub (key b) (key a)) (x # xs) =
        js_insort (\<lambda>a b. sub (key b) (key a)) x (js_sort (\<lambda>a b. sub (key b) (key a)) xs)"
    by (simp add: js_sort_def)
  with sorted_js_insort [OF sign Cons.IH, of x] show ?case by simp
qed

text \<open>Elements of equal key keep the order they came in.\<close>

lemma filter_js_insort:
  fixes key :: "'a \<Rightarrow> 'n::{zero,linorder}"
  assumes sign: "\<And>a b. sub b a \<le> 0 \<longleftrightarrow> b \<le> a"
  shows "filter (\<lambda>y. key y = v) (js_insort (\<lambda>a b. sub (key b) (key a)) x xs) =
         filter (\<lambda>y. key y = v) (x # xs)"
  by (induction xs) (auto simp: sign)

lemma filter_js_sort:
  fixes key :: "'a \<Rightarrow> 'n::{zero,linorder}"
  assumes sign: "\<And>a b. sub b a \<le> 0 \<longleftrightarrow> b \<le> a"
  shows "filter (\<lambda>y. key y = v) (js_sort (\<lambda>a b. sub (key b) (key a)) xs) =
         filter (\<lambda>y. key y = v) xs"
proof (induction xs)
  case Nil
  show ?case by (simp add: js_sort_def)
next
  case (Cons x xs)
  have "js_sort (\<lambda>a b. sub (key b) (key a)) (x # xs) =
        js_insort (\<lambda>a b. sub (key b) (key a)) x (js_sort (\<lambda>a b. sub (key b) (key a)) xs)"
    by (simp add: js_sort_def)
  then show ?case
    using filter_js_insort [OF sign, of key v x "js_sort (\<lambda>a b. sub (key b) (key a)) xs"] Cons.IH
    by simp
qed

lemma restaurant_relevance_score:
  "restaurant_relevance getRelevance sub tenth query r ms =
     score getRelevance sub tenth query r ms"
proof -
  have "score getRelevance sub tenth query r ms =
        Max (set (getRelevance query (r_restaurantName r) #
                  map (\<lambda>menu. sub (getRelevance query (m_dishName menu)) tenth) ms))"
    by (simp add: score_def)
  also have "\<dots> = restaurant_relevance getRelevance sub tenth query r ms"
    unfolding restaurant_relevance_def by (rule Max.set_eq_fold)
  finally show ?thesis by simp
qed

text \<open>
  C7. For numbers whose difference \<open>sub b a\<close> is at most zero exactly when
  \<open>b \<le> a\<close>, as it is for doubles (the rounded difference keeps the sign of
  the exact one): the search gives every restaurant the maximum
  of the relevance of its name and of the relevance of each of its dish names less
  0.1; its list holds all restaurants with these scores, in falling order of score,
  restaurants of equal score in the order the store returned them; and the call
  returns what the paginator makes of that list, of the page size of the query (10
  when it has none, or zero) and of the page of the query (1 when it has none, or
  zero). With the slicing paginator that is the stretch of the list that starts after
  the pages before it and is one page long.
\<close>

theorem searchRestaurantByRelevance_ranked:
  fixes getRelevance :: "string \<Rightarrow> string \<Rightarrow> 'n::{zero,linorder}"
  assumes sign: "\<And>a b. sub b a \<le> 0 \<longleftrightarrow> b \<le> a"
  shows
    "(let scored = map (\<lambda>(r, ms). (r, ms, score getRelevance sub tenth (q query) r ms))
                     (restaurant_findMany_menus d);
          results = search_results getRelevance sub tenth d (q query);
          size = (case itemsperpage query of None \<Rightarrow> 10 | Some n \<Rightarrow> if n = 0 then 10 else n);
          number = (case page query of None \<Rightarrow> 1 | Some p \<Rightarrow> if p = 0 then 1 else p)
      in mset results = mset scored \<and>
         sorted_wrt (\<lambda>a b. relevance b \<le> relevance a) results \<and>
         (\<forall>v. filter (\<lambda>x. relevance x = v) results = filter (\<lambda>x. relevance x = v) scored) \<and>
         searchRestaurantByRelevance getRelevance sub tenth pg d query =
           pg results size number \<and>
         searchRestaurantByRelevance getRelevance sub tenth paginate d query =
           take (nat size) (drop (nat ((number - 1) * size)) results))"
proof -
  let ?scored = "map (\<lambda>(r, ms). (r, ms, score getRelevance sub tenth (q query) r ms))
                   (restaurant_findMany_menus d)"
  let ?results = "search_results getRelevance sub tenth d (q query)"
  let ?size = "case itemsperpage query of None \<Rightarrow> 10 | Some n \<Rightarrow> if n = 0 then 10 else n"
  let ?number = "case page query of None \<Rightarrow> 1 | Some p \<Rightarrow> if p = 0 then (1::int) else p"
  have eq: "?results = js_sort (\<lambda>a b. sub (relevance b) (relevance a)) ?scored"
    by (simp add: search_results_def restaurant_relevance_score)
  have "mset ?results = mset ?scored"
    unfolding eq by (rule mset_js_sort)
  moreover have "sorted_wrt (\<lambda>a b. relevance b \<le> relevance a) ?results"
    unfolding eq by (rule sorted_js_sort [OF sign])
  moreover have "filter (\<lambda>x. relevance x = v) ?results = filter (\<lambda>x. relevance x = v) ?scored"
    for v
    unfolding eq by (rule filter_js_sort [OF sign])
  moreover have run: "searchRestaurantByRelevance getRelevance sub tenth pg d query =
      pg ?results ?size ?number" for pg :: "'n RestaurantScored list \<Rightarrow> int \<Rightarrow> int \<Rightarrow> 'r"
    by (simp add: searchRestaurantByRelevance_def Let_def js_or_def)
  moreover have "searchRestaurantByRelevance getRelevance sub tenth paginate d query =
      take (nat ?size) (drop (nat ((?number - 1) * ?size)) ?results)"
    unfolding run by (simp add: paginate_def)
  ultimately show ?thesis
    unfolding Let_def by blast
qed

theorem searchRestaurantByRelevance_ranked_witness:
  "(\<forall>a b :: rat. (b - a \<le> 0) = (b \<le> a)) \<and>
   map (\<lambda>x. (r_id (fst x), relevance x))
     (searchRestaurantByRelevance ex_relevance (-) (1 / 10) paginate ex_store ex_search) =
     [(2, 9 / 10), (1, 0), (3, 0)] \<and>
   map (\<lambda>x. (r_id (fst x), relevance x))
     (searchRestaurantByRelevance ex_relevance (-) (1 / 10) paginate ex_store ex_search_paged) =
     [(3, 0)] \<and>
   (\<forall>a b :: rat. (binary64 (b - a) \<le> 0) = (b \<le> a)) \<and>
   map (\<lambda>x. (r_id (fst x), relevance x))
     (searchRestaurantByRelevance ex_relevance_d (\<lambda>a b. binary64 (a - b)) (binary64 (1 / 10))
        paginate ex_store ex_search) =
     [(2, 3602879701896397 / 18014398509481984),
      (1, 7205759403792793 / 36028797018963968), (3, 0)]"
proof -
  have sign: "\<And>a b :: rat. b - a \<le> 0 \<longleftrightarrow> b \<le> a"
    by simp
  have sign_d: "\<And>a b :: rat. binary64 (b - a) \<le> 0 \<longleftrightarrow> b \<le> a"
    by (simp add: binary64_sign)
  have ranked: "map (\<lambda>x. (r_id (fst x), relevance x))
          (search_results ex_relevance (-) (1 / 10) ex_store ''Sate'') =
        [(2, 9 / 10), (1, 0), (3, 0)]"
    by (simp add: search_results_def js_sort_def restaurant_relevance_def relevance_def
        restaurant_findMany_menus_def ex_store_def ex_relevance_def)
  have ranked_d: "map (\<lambda>x. (r_id (fst x), relevance x))
          (search_results ex_relevance_d (\<lambda>a b. binary64 (a - b)) (binary64 (1 / 10))
             ex_store ''Sate'') =
        [(2, 3602879701896397 / 18014398509481984),
         (1, 7205759403792793 / 36028797018963968), (3, 0)]"
    by (simp add: search_results_def js_sort_def restaurant_relevance_def relevance_def
        restaurant_findMany_menus_def ex_store_def ex_relevance_d_def binary64_simps)
  have plain: "searchRestaurantByRelevance ex_relevance (-) (1 / 10) paginate ex_store ex_search =
        take 10 (search_results ex_relevance (-) (1 / 10) ex_store ''Sate'')"
    using searchRestaurantByRelevance_ranked
      [of "(-)" ex_relevance "1 / 10" ex_search ex_store paginate, OF sign]
    by (simp add: Let_def ex_search_def paginate_def)
  have paged: "searchRestaurantByRelevance ex_relevance (-) (1 / 10) paginate ex_store
        ex_search_paged =
        take 2 (drop 2 (search_results ex_relevance (-) (1 / 10) ex_store ''Sate''))"
    using searchRestaurantByRelevance_ranked
      [of "(-)" ex_relevance "1 / 10" ex_search_paged ex_store paginate, OF sign]
    by (simp add: Let_def ex_search_paged_def paginate_def)
  have plain_d: "searchRestaurantByRelevance ex_relevance_d (\<lambda>a b. binary64 (a - b))
        (binary64 (1 / 10)) paginate ex_store ex_search =
        take 10 (search_results ex_relevance_d (\<lambda>a b. binary64 (a - b)) (binary64 (1 / 10))
          ex_store ''Sate'')"
    using searchRestaurantByRelevance_ranked
      [of "\<lambda>a b. binary64 (a - b)" ex_relevance_d "binary64 (1 / 10)" ex_search ex_store
        paginate, OF sign_d]
    by (simp add: Let_def ex_search_def paginate_def)
  have "map (\<lambda>x. (r_id (fst x), relevance x))
          (take 10 (search_results ex_relevance (-) (1 / 10) ex_store ''Sate'')) =
        [(2, 9 / 10), (1, 0), (3, 0)]"
    unfolding take_map [symmetric] ranked by simp
  moreover have "map (\<lambda>x. (r_id (fst x), relevance x))
          (take 2 (drop 2 (search_results ex_relevance (-) (1 / 10) ex_store ''Sate''))) =
        [(3, 0)]"
    unfolding take_map [symmetric] drop_map [symmetric] ranked by simp
  moreover have "map (\<lambda>x. (r_id (fst x), relevance x))
          (take 10 (search_results ex_relevance_d (\<lambda>a b. binary64 (a - b)) (binary64 (1 / 10))
             ex_store ''Sate'')) =
        [(2, 3602879701896397 / 18014398509481984),
         (1, 7205759403792793 / 36028797018963968), (3, 0)]"
    unfolding take_map [symmetric] ranked_d by simp
  ultimately show ?thesis
    unfolding plain paged plain_d using sign sign_d by blast
qed
lemma set_paginate: "set (paginate xs n p) \<subseteq> set xs"
  unfolding paginate_def
  by (meson set_take_subset set_drop_subset subset_trans)

text \<open>
  C10. Without query parameters the listing keeps the restaurants that have between 1
  and 10000 dishes priced from 0 to 999999 and hands them to the paginator with page
  size 10 and page 1; so a restaurant without a menu is not in the list, and not in
  the page that the slicing paginator returns.
\<close>

theorem getAllRestaurants_default_dishgte:
  "getAllRestaurants parseDate isStoreOpen localeCompare pg d no_params =
     Inr (pg (restaurantsNew 0 999999 1 10000 (restaurant_findMany_menus d)) 10 1) \<and>
   (\<forall>r \<in> set (restaurants d).
      (\<forall>m \<in> set (menus d). m_restaurantId m \<noteq> r_id r) \<longrightarrow>
      listed r \<notin> set (restaurantsNew 0 999999 1 10000 (restaurant_findMany_menus d)) \<and>
      (\<forall>shown. getAllRestaurants parseDate isStoreOpen localeCompare paginate d no_params
                  = Inr shown \<longrightarrow> listed r \<notin> set shown))"
proof -
  let ?new = "restaurantsNew 0 999999 1 10000 (restaurant_findMany_menus d)"
  have run: "getAllRestaurants parseDate isStoreOpen localeCompare pg d no_params =
      Inr (pg ?new 10 1)" for pg :: "_ \<Rightarrow> _ \<Rightarrow> _ \<Rightarrow> 'p"
    by (simp add: getAllRestaurants_def no_params_def js_or_def Let_def)
  have out: "listed r \<notin> set ?new"
    if "r \<in> set (restaurants d)" "\<forall>m \<in> set (menus d). m_restaurantId m \<noteq> r_id r" for r
  proof
    assume "listed r \<in> set ?new"
    then obtain r1 where r1: "r1 \<in> set (restaurants d)" "listed r1 = listed r"
      "1 \<le> dishCount 0 999999 (filter (\<lambda>m. m_restaurantId m = r_id r1) (menus d))"
      by (auto simp: restaurantsNew_def restaurant_findMany_menus_def)
    from r1(2) have "r_id r1 = r_id r"
      by (simp add: listed_def)
    with that(2) have "filter (\<lambda>m. m_restaurantId m = r_id r1) (menus d) = []"
      by (simp add: filter_empty_conv)
    with r1(3) show False
      by (simp add: dishCount_def)
  qed
  have "listed r \<notin> set shown"
    if "r \<in> set (restaurants d)" "\<forall>m \<in> set (menus d). m_restaurantId m \<noteq> r_id r"
      "getAllRestaurants parseDate isStoreOpen localeCompare paginate d no_params = Inr shown"
    for r shown
  proof -
    from that(3) have "shown = paginate ?new 10 1"
      unfolding run [of paginate] by simp
    with out [OF that(1,2)] set_paginate [of ?new 10 1] show ?thesis by blast
  qed
  with run [of pg] out show ?thesis by blast
qed

theorem getAllRestaurants_default_dishgte_witness:
  "\<lparr>r_id = 3, r_cashBalance = 0, r_openingHours = ''Sat 8-12'',
     r_restaurantName = ''Kosong'', r_ownerId = Some 2\<rparr> \<in> set (restaurants ex_store) \<and>
   filter (\<lambda>m. m_restaurantId m = 3) (menus ex_store) = [] \<and>
   (\<exists>shown. getAllRestaurants (\<lambda>s. None :: int option) (\<lambda>t h. True) (\<lambda>a b. 0)
               paginate ex_store no_params = Inr shown \<and>
      map l_id shown = [1, 2] \<and>
      \<lparr>l_id = 3, l_cashBalance = 0, l_openingHours = ''Sat 8-12'',
        l_restaurantName = ''Kosong''\<rparr> \<notin> set shown)"
proof -
  let ?r = "\<lparr>r_id = 3, r_cashBalance = 0, r_openingHours = ''Sat 8-12'',
              r_restaurantName = ''Kosong'', r_ownerId = Some 2\<rparr>"
  let ?run = "getAllRestaurants (\<lambda>s. None :: int option) (\<lambda>t h. True) (\<lambda>a b. 0)
                paginate ex_store no_params"
  have mem: "?r \<in> set (restaurants ex_store)"
    by (simp add: ex_store_def)
  have bare: "\<forall>m \<in> set (menus ex_store). m_restaurantId m \<noteq> r_id ?r"
    by (simp add: ex_store_def)
  have page1: "paginate (restaurantsNew 0 999999 1 10000 (restaurant_findMany_menus ex_store)) 10 1
      = [listed (restaurants ex_store ! 0), listed (restaurants ex_store ! 1)]"
    by (simp add: paginate_def restaurantsNew_def restaurant_findMany_menus_def dishCount_def
        ex_store_def)
  from getAllRestaurants_default_dishgte
    [of "\<lambda>s. None :: int option" "\<lambda>t h. True" "\<lambda>a b. 0" paginate ex_store]
  have run: "?run = Inr [listed (restaurants ex_store ! 0), listed (restaurants ex_store ! 1)]"
    and out: "\<forall>shown. ?run = Inr shown \<longrightarrow> listed ?r \<notin> set shown"
    using mem bare unfolding page1 by blast+
  have ids: "map l_id [listed (restaurants ex_store ! 0), listed (restaurants ex_store ! 1)] = [1, 2]"
    by (simp add: listed_def ex_store_def)
  have "listed ?r = \<lparr>l_id = 3, l_cashBalance = 0, l_openingHours = ''Sat 8-12'',
                      l_restaurantName = ''Kosong''\<rparr>"
    by (simp add: listed_def)
  moreover have "filter (\<lambda>m. m_restaurantId m = 3) (menus ex_store) = []"
    by (simp add: ex_store_def)
  ultimately show ?thesis
    using run out ids mem by auto
qed

end
